theory Spec2Isabelle
  imports Complex_Main "HOL-Library.Log_Nat"
begin

section \<open>Data model of the transcription service\<close>

text \<open>
  \<^verbatim>\<open>interface TranscriptionChunk { text: string; start: number; end: number }\<close> and
  \<^verbatim>\<open>interface TranscriptionResult { text: string; chunks: TranscriptionChunk[] }\<close>.
  Times and sample values are modelled as exact reals; the index arithmetic of the
  resampler, where rounding decides which samples are returned, is modelled in
  binary64 (see \<open>fl64\<close> below). Strings are lists of 8-bit characters.
\<close>

record TranscriptionChunk =
  chunk_text :: string
  chunk_start :: real
  chunk_end :: real

record TranscriptionResult =
  res_text :: string
  res_chunks :: "TranscriptionChunk list"

text \<open>The two fields of the browser's \<^verbatim>\<open>File\<close> object that the service reads.\<close>

record File =
  file_type :: string
  file_size :: nat

text \<open>
  A thrown JavaScript value: an \<^verbatim>\<open>Error\<close> with its message, an axios error with its
  message, its \<^verbatim>\<open>code\<close> and \<^verbatim>\<open>response.data.message\<close> (both may be absent), or
  a value that is not an instance of \<^verbatim>\<open>Error\<close>.
\<close>

datatype thrown =
    Error string
  | AxiosError string "string option" "string option"
  | NonError

text \<open>\<^verbatim>\<open>error instanceof Error ? error.message : 'Unknown error'\<close>\<close>

fun messageOr :: "string \<Rightarrow> thrown \<Rightarrow> string" where
  "messageOr d (Error m) = m"
| "messageOr d (AxiosError m c r) = m"
| "messageOr d NonError = d"

text \<open>
  The body of the response of \<^verbatim>\<open>POST /api/transcribe\<close> as the client reads it:
  \<^verbatim>\<open>response.data.text\<close> and \<^verbatim>\<open>response.data.chunks\<close>, each possibly absent.
  The model covers bodies whose \<^verbatim>\<open>text\<close> is a string and whose \<^verbatim>\<open>chunks\<close> is an
  array, the shape the server route sends.
\<close>

record api_data =
  data_text :: "string option"
  data_chunks :: "TranscriptionChunk list option"

text \<open>
  What \<^verbatim>\<open>await axios.post(...)\<close> does: it throws, or it yields a response whose
  \<^verbatim>\<open>data\<close> may be undefined.
\<close>

datatype api_outcome =
    ApiThrows thrown
  | ApiResponse "api_data option"

text \<open>
  The collaborators of one call: the remote endpoint and the in-browser model run by
  \<^verbatim>\<open>transcribeLocally\<close> (what the body of its \<^verbatim>\<open>try\<close> block does).
\<close>

record backends =
  api_post :: "File \<Rightarrow> api_outcome"
  local_model :: "File \<Rightarrow> thrown + TranscriptionResult"

text \<open>The backends invoked during a call, in order of invocation.\<close>

datatype backend_call = RemoteAPI | LocalModel

type_synonym 'a attempt = "backend_call list \<times> (thrown + 'a)"

section \<open>String helpers of the JavaScript runtime\<close>

text \<open>\<^verbatim>\<open>s.startsWith(p)\<close>\<close>

definition startsWith :: "string \<Rightarrow> string \<Rightarrow> bool" where
  "startsWith s p = (take (length p) s = p)"

text \<open>Truthiness of a possibly absent string: absent and the empty string are falsy.\<close>

fun truthyStr :: "string option \<Rightarrow> bool" where
  "truthyStr None = False"
| "truthyStr (Some s) = (s \<noteq> [])"

text \<open>\<^verbatim>\<open>a || b\<close> for a possibly absent string \<open>a\<close> and a string \<open>b\<close>.\<close>

fun orElse :: "string option \<Rightarrow> string \<Rightarrow> string" where
  "orElse None d = d"
| "orElse (Some s) d = (if s \<noteq> [] then s else d)"

text \<open>The white space that \<^verbatim>\<open>String.prototype.trim\<close> removes, among 7-bit characters.\<close>

definition isSpace :: "char \<Rightarrow> bool" where
  "isSpace c = (c = CHR '' '' \<or> c = CHR 0x09 \<or> c = CHR 0x0A \<or> c = CHR 0x0B
                \<or> c = CHR 0x0C \<or> c = CHR 0x0D)"

definition trim :: "string \<Rightarrow> string" where
  "trim s = rev (dropWhile isSpace (rev (dropWhile isSpace s)))"

text \<open>A string that is empty or consists of white space only.\<close>

definition blank :: "string \<Rightarrow> bool" where
  "blank s = list_all isSpace s"

section \<open>The fallback orchestrator: \<^verbatim>\<open>WhisperService.transcribeAudio\<close>\<close>

definition supportedFormats :: "string list" where
  "supportedFormats = [''audio/wav'', ''audio/mp3'', ''audio/mpeg'']"

definition maxSize :: nat where
  "maxSize = 25 * 1024 * 1024"

text \<open>
  \<^verbatim>\<open>transcribeLocally\<close>: every failure of its body is rethrown as
  \<^verbatim>\<open>new Error(`Local transcription failed: ${...}`)\<close>.
\<close>

definition transcribeLocally :: "backends \<Rightarrow> File \<Rightarrow> thrown + TranscriptionResult" where
  "transcribeLocally b f =
     (case local_model b f of
        Inl e \<Rightarrow> Inl (Error (''Local transcription failed: '' @ messageOr ''Unknown error'' e))
      | Inr r \<Rightarrow> Inr r)"

text \<open>
  The inner \<^verbatim>\<open>try\<close> of \<^verbatim>\<open>transcribeAudio\<close>: the request to the API, whose failure
  is caught and logged, then the fall back to local transcription.
\<close>

definition fallBack :: "backends \<Rightarrow> File \<Rightarrow> TranscriptionResult attempt" where
  "fallBack b f = ([RemoteAPI, LocalModel], transcribeLocally b f)"

definition tryBackends :: "backends \<Rightarrow> File \<Rightarrow> TranscriptionResult attempt" where
  "tryBackends b f =
     (case api_post b f of
        ApiThrows apiError \<Rightarrow> fallBack b f
      | ApiResponse None \<Rightarrow> fallBack b f
      | ApiResponse (Some d) \<Rightarrow>
          (case data_text d of
             None \<Rightarrow> fallBack b f
           | Some t \<Rightarrow>
               if t \<noteq> []
               then ([RemoteAPI],
                     Inr \<lparr>res_text = t,
                          res_chunks = (case data_chunks d of Some cs \<Rightarrow> cs | None \<Rightarrow> [])\<rparr>)
               else fallBack b f))"

text \<open>\<^verbatim>\<open>catch (processingError)\<close>: every error of the inner block is wrapped.\<close>

definition wrapProcessing :: "TranscriptionResult attempt \<Rightarrow> TranscriptionResult attempt" where
  "wrapProcessing a =
     (case a of
        (calls, Inl e) \<Rightarrow>
          (calls, Inl (Error (''Failed to process audio: '' @ messageOr ''Unknown error'' e)))
      | (calls, Inr r) \<Rightarrow> (calls, Inr r))"

text \<open>The outer \<^verbatim>\<open>catch (error)\<close>: axios errors are translated, others rethrown.\<close>

fun outerCatch :: "thrown \<Rightarrow> thrown" where
  "outerCatch (AxiosError m c r) =
     (if c = Some ''ECONNABORTED''
      then Error ''Transcription timed out. Please try a shorter audio file.''
      else Error (orElse r ''Failed to transcribe audio. Please try again.''))"
| "outerCatch e = e"

definition transcribeAudio :: "backends \<Rightarrow> File \<Rightarrow> TranscriptionResult attempt" where
  "transcribeAudio b audioFile =
     (case
        (if \<not> list_ex (\<lambda>format. startsWith (file_type audioFile) format) supportedFormats
         then ([], Inl (Error ''Please upload a WAV or MP3 file.''))
         else if file_size audioFile > maxSize
         then ([], Inl (Error ''File too large. Maximum size is 25MB.''))
         else wrapProcessing (tryBackends b audioFile))
      of (calls, Inl e) \<Rightarrow> (calls, Inl (outerCatch e))
       | (calls, Inr r) \<Rightarrow> (calls, Inr r))"

section \<open>The signal normalizer: \<^verbatim>\<open>WhisperService.convertToFloat32Array\<close>\<close>

text \<open>
  An element of a \<^verbatim>\<open>Float32Array\<close>: a finite value, an infinity or NaN. A read
  beyond the end of a typed array yields \<^verbatim>\<open>undefined\<close>, which is stored as NaN.
\<close>

datatype f32 = NaN | PosInf | NegInf | Val real

text \<open>
  What \<^verbatim>\<open>decodeAudioData\<close> yields: the sample rate and the samples of channel 0
  (finite values, as a decoder produces them).
\<close>

record AudioBuffer =
  sampleRate :: real
  channelData :: "real list"

text \<open>\<^verbatim>\<open>x / y\<close> on finite numbers, for a divisor that is never negative zero.\<close>

definition jsDivide :: "real \<Rightarrow> real \<Rightarrow> f32" where
  "jsDivide x y =
     (if y \<noteq> 0 then Val (x / y)
      else if x = 0 then NaN
      else if x > 0 then PosInf else NegInf)"

text \<open>The first loop: the largest absolute value, starting from 0.\<close>

definition maxAbsValue :: "real list \<Rightarrow> real" where
  "maxAbsValue rawData = foldl (\<lambda>m x. if \<bar>x\<bar> > m then \<bar>x\<bar> else m) 0 rawData"

text \<open>\<^verbatim>\<open>maxAbsValue || 1\<close>\<close>

definition orOne :: "real \<Rightarrow> real" where
  "orOne m = (if m = 0 then 1 else m)"

text \<open>The second loop: every sample divided by the guarded maximum.\<close>

definition normalizedData :: "real list \<Rightarrow> f32 list" where
  "normalizedData rawData = map (\<lambda>x. jsDivide x (orOne (maxAbsValue rawData))) rawData"

text \<open>\<^verbatim>\<open>xs[i]\<close> on a typed array, stored into a \<^verbatim>\<open>Float32Array\<close>.\<close>

definition readAt :: "f32 list \<Rightarrow> int \<Rightarrow> f32" where
  "readAt xs i = (if 0 \<le> i \<and> i < int (length xs) then xs ! nat i else NaN)"

definition processError :: thrown where
  "processError = Error ''Failed to process audio file. Please try a different file.''"

text \<open>
  IEEE 754 binary64 arithmetic, as JavaScript evaluates \<^verbatim>\<open>16000 / sampleRate\<close>,
  \<^verbatim>\<open>length * resampleRatio\<close> and \<^verbatim>\<open>i / resampleRatio\<close>: the exact result
  rounded to 53 significant bits, ties to even. The exponent range is left unbounded:
  sample rates are single-precision values and lengths are below \<open>2\<^sup>5\<^sup>3\<close>, so none of
  the three operations overflows or underflows.
\<close>

text \<open>The binary exponent \<open>\<lfloor>log\<^sub>2 x\<rfloor>\<close> of a positive number.\<close>

definition ilog2 :: "real \<Rightarrow> int" where
  "ilog2 x = (if x \<ge> 1 then bitlen \<lfloor>x\<rfloor> - 1 else - bitlen (\<lceil>1 / x\<rceil> - 1))"

definition roundTiesToEven :: "real \<Rightarrow> int" where
  "roundTiesToEven x =
     (let f = \<lfloor>x\<rfloor>
      in if x - of_int f < 1 / 2 then f
         else if x - of_int f > 1 / 2 then f + 1
         else if even f then f else f + 1)"

definition fl64 :: "real \<Rightarrow> real" where
  "fl64 x =
     (if x = 0 then 0
      else let e = ilog2 \<bar>x\<bar> - 52
           in of_int (roundTiesToEven (x / 2 powi e)) * 2 powi e)"

text \<open>
  The argument is the outcome of decoding: \<open>None\<close> when the audio context or the
  decoder throws. A rate of zero makes the ratio infinite and a negative rate makes the
  length negative: the typed-array constructor then throws a RangeError, which the
  \<^verbatim>\<open>catch\<close> block turns into the same error as a failed decode.
\<close>

definition convertToFloat32Array :: "AudioBuffer option \<Rightarrow> thrown + f32 list" where
  "convertToFloat32Array decoded =
     (case decoded of
        None \<Rightarrow> Inl processError
      | Some audioBuffer \<Rightarrow>
          let rawData = channelData audioBuffer;
              normalized = normalizedData rawData
          in if sampleRate audioBuffer \<noteq> 16000
             then let resampleRatio = fl64 (16000 / sampleRate audioBuffer);
                      resampledLength = \<lfloor>fl64 (real (length normalized) * resampleRatio)\<rfloor>
                  in if (sampleRate audioBuffer = 0 \<and> rawData \<noteq> []) \<or> resampledLength < 0
                     then Inl processError
                     else Inr (map (\<lambda>i. readAt normalized \<lfloor>fl64 (real i / resampleRatio)\<rfloor>)
                                 [0..<nat resampledLength])
             else Inr normalized)"

text \<open>
  The largest absolute value of a buffer (0 for the empty buffer); \<open>None\<close> when some
  element is not a finite number.
\<close>

fun maxAbsOf :: "f32 list \<Rightarrow> real option" where
  "maxAbsOf [] = Some 0"
| "maxAbsOf (Val v # xs) = map_option (max \<bar>v\<bar>) (maxAbsOf xs)"
| "maxAbsOf (s # xs) = None"

section \<open>The remote backend: \<^verbatim>\<open>WhisperService.transcribeWithSarvam\<close>\<close>

text \<open>
  A segment of the service's answer, every field possibly absent; an entry of
  \<^verbatim>\<open>timestamp\<close> may be null. The model covers answers whose texts are strings and
  whose times are numbers.
\<close>

record raw_segment =
  seg_text :: "string option"
  seg_transcript :: "string option"
  seg_start :: "real option"
  seg_end :: "real option"
  seg_timestamp :: "real option list option"

record sarvam_data =
  sd_text :: "string option"
  sd_transcript :: "string option"
  sd_transcription :: "string option"
  sd_segments :: "raw_segment list option"
  sd_chunks :: "raw_segment list option"

text \<open>
  What \<^verbatim>\<open>fetch\<close> and \<^verbatim>\<open>response.json()\<close> do: one of them throws, the status is
  not ok, or the body is parsed.
\<close>

datatype fetch_outcome =
    FetchThrows thrown
  | FetchNotOk nat
  | FetchOk sarvam_data

text \<open>Decimal rendering of a status code in a template string.\<close>

fun showNat :: "nat \<Rightarrow> string" where
  "showNat n =
     (if n < 10 then [''0123456789'' ! n]
      else showNat (n div 10) @ [''0123456789'' ! (n mod 10)])"

declare showNat.simps [simp del]

text \<open>\<^verbatim>\<open>s.split(c)\<close> for a one-character separator.\<close>

fun split :: "char \<Rightarrow> string \<Rightarrow> string list" where
  "split c [] = [[]]"
| "split c (x # xs) =
     (if x = c then [] # split c xs
      else (case split c xs of
              [] \<Rightarrow> [[x]]
            | w # ws \<Rightarrow> (x # w) # ws))"

text \<open>
  \<^verbatim>\<open>a || b\<close> on possibly absent numbers: the first operand unless it is falsy
  (absent, null or zero).
\<close>

fun orNum :: "real option \<Rightarrow> real option \<Rightarrow> real option" where
  "orNum None b = b"
| "orNum (Some x) b = (if x \<noteq> 0 then Some x else b)"

text \<open>\<^verbatim>\<open>segment.timestamp?.[i]\<close>\<close>

fun timestampAt :: "real option list option \<Rightarrow> nat \<Rightarrow> real option" where
  "timestampAt None i = None"
| "timestampAt (Some ts) i = (if i < length ts then ts ! i else None)"

text \<open>\<^verbatim>\<open>a || 0\<close> and \<^verbatim>\<open>a || d\<close> with a number on the right.\<close>

fun orDefault :: "real option \<Rightarrow> real \<Rightarrow> real" where
  "orDefault None d = d"
| "orDefault (Some x) d = (if x \<noteq> 0 then x else d)"

text \<open>The function mapped over the segments.\<close>

definition processSegment :: "raw_segment \<Rightarrow> TranscriptionChunk" where
  "processSegment segment =
     (let text = orElse (seg_text segment) (orElse (seg_transcript segment) []);
          start = orDefault (orNum (seg_start segment) (timestampAt (seg_timestamp segment) 0)) 0;
          end' = orDefault (orNum (seg_end segment) (timestampAt (seg_timestamp segment) 1))
                   (start + real (length (split CHR '' '' text)) * (3 / 10))
      in \<lparr>chunk_text = trim text, chunk_start = start, chunk_end = end'\<rparr>)"

text \<open>\<^verbatim>\<open>data.segments || data.chunks || []\<close>: an array is truthy even when empty.\<close>

definition segmentsOf :: "sarvam_data \<Rightarrow> raw_segment list" where
  "segmentsOf d =
     (case sd_segments d of
        Some segs \<Rightarrow> segs
      | None \<Rightarrow> (case sd_chunks d of Some cs \<Rightarrow> cs | None \<Rightarrow> []))"

text \<open>
  The first argument is the configured API key. The final \<^verbatim>\<open>catch\<close> rethrows
  instances of \<^verbatim>\<open>Error\<close> and replaces any other thrown value.
\<close>

definition transcribeWithSarvam :: "string option \<Rightarrow> fetch_outcome \<Rightarrow> thrown + TranscriptionResult" where
  "transcribeWithSarvam SARVAM_API_KEY fetched =
     (if \<not> truthyStr SARVAM_API_KEY then Inl (Error ''Sarvam API key is not configured'')
      else (case fetched of
              FetchThrows NonError \<Rightarrow> Inl (Error ''Failed to transcribe audio. Please try again.'')
            | FetchThrows e \<Rightarrow> Inl e
            | FetchNotOk status \<Rightarrow>
                Inl (Error (''Transcription service error ('' @ showNat status
                            @ ''). Please try again.''))
            | FetchOk d \<Rightarrow>
                let transcriptionText =
                      orElse (sd_text d) (orElse (sd_transcript d) (orElse (sd_transcription d) []))
                in if transcriptionText = []
                   then Inl (Error ''No transcription result available'')
                   else Inr \<lparr>res_text = trim transcriptionText,
                             res_chunks = map processSegment (segmentsOf d)\<rparr>))"

text \<open>
  The transcript invariant: every segment starts no earlier than the previous one ends.
\<close>

fun nonOverlapping :: "TranscriptionChunk list \<Rightarrow> bool" where
  "nonOverlapping (a # b # cs) = (chunk_end a \<le> chunk_start b \<and> nonOverlapping (b # cs))"
| "nonOverlapping cs = True"

section \<open>The subprocess backend: \<^verbatim>\<open>transcribeWithWhisper\<close>\<close>






















section \<open>Properties of the orchestrator\<close>

lemma wrapProcessing_fst: "fst (wrapProcessing a) = fst a"
  by (cases a) (simp add: wrapProcessing_def split: sum.splits)

lemma wrapProcessing_snd:
  "snd (wrapProcessing a) \<noteq> Inl (Error ''File too large. Maximum size is 25MB.'')"
  by (cases a) (simp add: wrapProcessing_def split: sum.splits)

lemma tryBackends_calls: "hd (fst (tryBackends b f)) = RemoteAPI \<and> fst (tryBackends b f) \<noteq> []"
  by (simp add: tryBackends_def fallBack_def split: api_outcome.splits option.splits)

text \<open>Once both checks pass, the outer handler has nothing to translate.\<close>

lemma transcribeAudio_valid:
  assumes "list_ex (startsWith (file_type f)) supportedFormats" "file_size f \<le> maxSize"
  shows "transcribeAudio b f = wrapProcessing (tryBackends b f)"
  using assms
  by (cases "tryBackends b f")
     (auto simp add: transcribeAudio_def wrapProcessing_def split: sum.splits)

text \<open>
  Claim C7. A file larger than 25 MB (25 * 1024 * 1024 bytes) makes
  \<^verbatim>\<open>transcribeAudio\<close> fail before any backend is attempted: the list of invoked
  backends is empty, the call ends in one of the two validation errors (the format
  check runs first), and its outcome is the same whatever the backends would do.
\<close>

theorem oversize_rejected_before_backends:
  assumes "file_size f > 25 * 1024 * 1024"
  shows "fst (transcribeAudio b f) = []
       \<and> snd (transcribeAudio b f) =
           Inl (Error (if list_ex (startsWith (file_type f)) supportedFormats
                       then ''File too large. Maximum size is 25MB.''
                       else ''Please upload a WAV or MP3 file.''))
       \<and> transcribeAudio other f = transcribeAudio b f"
  using assms by (simp add: transcribeAudio_def maxSize_def)

theorem oversize_rejected_before_backends_witness:
  "(26214401::nat) > 25 * 1024 * 1024
   \<and> transcribeAudio
        \<lparr>api_post = (\<lambda>f. ApiResponse (Some \<lparr>data_text = Some ''hi'', data_chunks = None\<rparr>)),
         local_model = (\<lambda>f. Inr \<lparr>res_text = ''local'', res_chunks = []\<rparr>)\<rparr>
        \<lparr>file_type = ''audio/wav'', file_size = 26214401\<rparr>
     = ([], Inl (Error ''File too large. Maximum size is 25MB.''))"
  using oversize_rejected_before_backends
          [of "\<lparr>file_type = ''audio/wav'', file_size = 26214401\<rparr>"
              "\<lparr>api_post = (\<lambda>f. ApiResponse (Some \<lparr>data_text = Some ''hi'', data_chunks = None\<rparr>)),
                local_model = (\<lambda>f. Inr \<lparr>res_text = ''local'', res_chunks = []\<rparr>)\<rparr>"]
  by (simp add: supportedFormats_def startsWith_def prod_eq_iff)

text \<open>
  Claim C10. A file of a supported type whose size is exactly 25 * 1024 * 1024 bytes
  passes the size check, so the remote API is invoked; and the size error is the outcome
  of a call exactly when the type is supported and the size is strictly greater than the
  maximum.
\<close>

theorem size_limit_is_strict:
  "(list_ex (startsWith (file_type f)) supportedFormats \<and> file_size f = 25 * 1024 * 1024
      \<longrightarrow> hd (fst (transcribeAudio b f)) = RemoteAPI \<and> fst (transcribeAudio b f) \<noteq> [])
   \<and> (snd (transcribeAudio b f) = Inl (Error ''File too large. Maximum size is 25MB.'')
        \<longleftrightarrow> list_ex (startsWith (file_type f)) supportedFormats
            \<and> file_size f > 25 * 1024 * 1024)"
proof (intro conjI impI)
  assume a: "list_ex (startsWith (file_type f)) supportedFormats \<and> file_size f = 25 * 1024 * 1024"
  then have "transcribeAudio b f = wrapProcessing (tryBackends b f)"
    by (intro transcribeAudio_valid) (simp_all add: maxSize_def)
  then show "hd (fst (transcribeAudio b f)) = RemoteAPI" "fst (transcribeAudio b f) \<noteq> []"
    by (simp_all add: wrapProcessing_fst tryBackends_calls)
next
  show "snd (transcribeAudio b f) = Inl (Error ''File too large. Maximum size is 25MB.'')
        \<longleftrightarrow> list_ex (startsWith (file_type f)) supportedFormats
            \<and> file_size f > 25 * 1024 * 1024"
  proof (cases "list_ex (startsWith (file_type f)) supportedFormats")
    case False
    then show ?thesis by (simp add: transcribeAudio_def)
  next
    case True
    show ?thesis
    proof (cases "file_size f > maxSize")
      case big: True
      with True show ?thesis by (simp add: transcribeAudio_def maxSize_def)
    next
      case small: False
      then have "transcribeAudio b f = wrapProcessing (tryBackends b f)"
        using True by (intro transcribeAudio_valid) simp_all
      with small True show ?thesis
        by (simp add: wrapProcessing_snd maxSize_def)
    qed
  qed
qed

theorem size_limit_is_strict_witness:
  "list_ex (startsWith ''audio/mpeg'') supportedFormats \<and> (26214400::nat) = 25 * 1024 * 1024
   \<and> transcribeAudio
        \<lparr>api_post = (\<lambda>f. ApiResponse (Some \<lparr>data_text = Some ''hi'', data_chunks = None\<rparr>)),
         local_model = (\<lambda>f. Inl NonError)\<rparr>
        \<lparr>file_type = ''audio/mpeg'', file_size = 26214400\<rparr>
     = ([RemoteAPI], Inr \<lparr>res_text = ''hi'', res_chunks = []\<rparr>)"
  using size_limit_is_strict
          [of "\<lparr>file_type = ''audio/mpeg'', file_size = 26214400\<rparr>"
              "\<lparr>api_post = (\<lambda>f. ApiResponse (Some \<lparr>data_text = Some ''hi'', data_chunks = None\<rparr>)),
                local_model = (\<lambda>f. Inl NonError)\<rparr>"]
  by (simp add: supportedFormats_def startsWith_def transcribeAudio_def maxSize_def
        wrapProcessing_def tryBackends_def)

text \<open>
  Claim C8, as stated: every file whose MIME type is not exactly one of
  \<^verbatim>\<open>audio/wav\<close>, \<^verbatim>\<open>audio/mp3\<close>, \<^verbatim>\<open>audio/mpeg\<close> is rejected. The check is
  \<^verbatim>\<open>startsWith\<close>, so a type such as \<^verbatim>\<open>audio/wave\<close>, which is none of the three,
  reaches the remote backend and the call succeeds.
\<close>

theorem exact_mime_set_counterexample:
  "''audio/wave'' \<notin> set supportedFormats
   \<and> transcribeAudio
        \<lparr>api_post = (\<lambda>f. ApiResponse (Some \<lparr>data_text = Some ''hi'', data_chunks = None\<rparr>)),
         local_model = (\<lambda>f. Inl NonError)\<rparr>
        \<lparr>file_type = ''audio/wave'', file_size = 1000\<rparr>
     = ([RemoteAPI], Inr \<lparr>res_text = ''hi'', res_chunks = []\<rparr>)"
  by (simp add: supportedFormats_def startsWith_def transcribeAudio_def maxSize_def
        wrapProcessing_def tryBackends_def)

text \<open>
  Claim C8, amended: \<^verbatim>\<open>transcribeAudio\<close> fails with the format error, invoking no
  backend, for every file whose MIME type does not start with one of
  \<^verbatim>\<open>audio/wav\<close>, \<^verbatim>\<open>audio/mp3\<close>, \<^verbatim>\<open>audio/mpeg\<close>; only files whose type has one
  of the three as a prefix reach any backend.
\<close>

theorem unsupported_prefix_rejected:
  "(\<not> list_ex (startsWith (file_type f)) supportedFormats
      \<longrightarrow> transcribeAudio b f = ([], Inl (Error ''Please upload a WAV or MP3 file.'')))
   \<and> (fst (transcribeAudio b f) \<noteq> []
      \<longrightarrow> startsWith (file_type f) ''audio/wav'' \<or> startsWith (file_type f) ''audio/mp3''
          \<or> startsWith (file_type f) ''audio/mpeg'')"
  by (auto simp add: transcribeAudio_def supportedFormats_def)

theorem unsupported_prefix_rejected_witness:
  "\<not> list_ex (startsWith ''audio/ogg'') supportedFormats
   \<and> transcribeAudio
        \<lparr>api_post = (\<lambda>f. ApiResponse (Some \<lparr>data_text = Some ''hi'', data_chunks = None\<rparr>)),
         local_model = (\<lambda>f. Inl NonError)\<rparr>
        \<lparr>file_type = ''audio/ogg'', file_size = 1000\<rparr>
     = ([], Inl (Error ''Please upload a WAV or MP3 file.''))
   \<and> fst (transcribeAudio
        \<lparr>api_post = (\<lambda>f. ApiResponse (Some \<lparr>data_text = Some ''hi'', data_chunks = None\<rparr>)),
         local_model = (\<lambda>f. Inl NonError)\<rparr>
        \<lparr>file_type = ''audio/mp3'', file_size = 1000\<rparr>) \<noteq> []
   \<and> startsWith ''audio/mp3'' ''audio/mp3''"
  using unsupported_prefix_rejected
          [of "\<lparr>file_type = ''audio/ogg'', file_size = 1000\<rparr>"
              "\<lparr>api_post = (\<lambda>f. ApiResponse (Some \<lparr>data_text = Some ''hi'', data_chunks = None\<rparr>)),
                local_model = (\<lambda>f. Inl NonError)\<rparr>"]
        unsupported_prefix_rejected
          [of "\<lparr>file_type = ''audio/mp3'', file_size = 1000\<rparr>"
              "\<lparr>api_post = (\<lambda>f. ApiResponse (Some \<lparr>data_text = Some ''hi'', data_chunks = None\<rparr>)),
                local_model = (\<lambda>f. Inl NonError)\<rparr>"]
  by (simp add: supportedFormats_def startsWith_def transcribeAudio_def maxSize_def
        wrapProcessing_def tryBackends_def)

text \<open>
  Claim C1, as stated: a successful response whose text is empty or consists of white
  space only makes the orchestrator go on to the local backend. The test is the
  truthiness of the text, so a text of two blanks is returned as the final transcript
  and the local backend is not invoked.
\<close>

theorem whitespace_api_text_counterexample:
  "blank ''  ''
   \<and> transcribeAudio
        \<lparr>api_post = (\<lambda>f. ApiResponse (Some \<lparr>data_text = Some ''  '', data_chunks = None\<rparr>)),
         local_model = (\<lambda>f. Inr \<lparr>res_text = ''local'', res_chunks = []\<rparr>)\<rparr>
        \<lparr>file_type = ''audio/wav'', file_size = 1000\<rparr>
     = ([RemoteAPI], Inr \<lparr>res_text = ''  '', res_chunks = []\<rparr>)"
  by (simp add: blank_def isSpace_def supportedFormats_def startsWith_def transcribeAudio_def
        maxSize_def wrapProcessing_def tryBackends_def)

text \<open>
  Claim C1, amended: in every call that passes validation and in which the remote API
  responds successfully with an empty text, the orchestrator treats the attempt as a
  failure and proceeds to the local backend, whose outcome is the outcome of the call;
  the remote result is not returned. A text that is not empty but consists of white
  space only is accepted and returned like any other non-empty text.
\<close>

theorem empty_api_text_falls_back:
  assumes "list_ex (startsWith (file_type f)) supportedFormats" "file_size f \<le> maxSize"
    and "api_post b f = ApiResponse (Some d)"
  shows "(data_text d = Some [] \<longrightarrow>
            transcribeAudio b f =
              ([RemoteAPI, LocalModel],
               case local_model b f of
                 Inl e \<Rightarrow> Inl (Error (''Failed to process audio: Local transcription failed: ''
                                       @ messageOr ''Unknown error'' e))
               | Inr r \<Rightarrow> Inr r))
       \<and> (\<forall>t. data_text d = Some t \<and> t \<noteq> [] \<and> blank t \<longrightarrow>
            transcribeAudio b f =
              ([RemoteAPI],
               Inr \<lparr>res_text = t,
                    res_chunks = (case data_chunks d of Some cs \<Rightarrow> cs | None \<Rightarrow> [])\<rparr>))"
  using assms
  by (auto simp add: transcribeAudio_valid tryBackends_def fallBack_def wrapProcessing_def
        transcribeLocally_def split: sum.splits)

theorem empty_api_text_falls_back_witness:
  "list_ex (startsWith ''audio/wav'') supportedFormats \<and> (1000::nat) \<le> maxSize
   \<and> transcribeAudio
        \<lparr>api_post = (\<lambda>f. ApiResponse (Some \<lparr>data_text = Some [], data_chunks = None\<rparr>)),
         local_model = (\<lambda>f. Inr \<lparr>res_text = ''local'', res_chunks = []\<rparr>)\<rparr>
        \<lparr>file_type = ''audio/wav'', file_size = 1000\<rparr>
     = ([RemoteAPI, LocalModel], Inr \<lparr>res_text = ''local'', res_chunks = []\<rparr>)
   \<and> '' '' \<noteq> [] \<and> blank '' ''
   \<and> transcribeAudio
        \<lparr>api_post = (\<lambda>f. ApiResponse (Some \<lparr>data_text = Some '' '', data_chunks = None\<rparr>)),
         local_model = (\<lambda>f. Inr \<lparr>res_text = ''local'', res_chunks = []\<rparr>)\<rparr>
        \<lparr>file_type = ''audio/wav'', file_size = 1000\<rparr>
     = ([RemoteAPI], Inr \<lparr>res_text = '' '', res_chunks = []\<rparr>)"
  using empty_api_text_falls_back
          [of "\<lparr>file_type = ''audio/wav'', file_size = 1000\<rparr>"
              "\<lparr>api_post = (\<lambda>f. ApiResponse (Some \<lparr>data_text = Some [], data_chunks = None\<rparr>)),
                local_model = (\<lambda>f. Inr \<lparr>res_text = ''local'', res_chunks = []\<rparr>)\<rparr>"
              "\<lparr>data_text = Some [], data_chunks = None\<rparr>"]
        empty_api_text_falls_back
          [of "\<lparr>file_type = ''audio/wav'', file_size = 1000\<rparr>"
              "\<lparr>api_post = (\<lambda>f. ApiResponse (Some \<lparr>data_text = Some '' '', data_chunks = None\<rparr>)),
                local_model = (\<lambda>f. Inr \<lparr>res_text = ''local'', res_chunks = []\<rparr>)\<rparr>"
              "\<lparr>data_text = Some '' '', data_chunks = None\<rparr>"]
  by (simp add: supportedFormats_def startsWith_def maxSize_def blank_def isSpace_def)

text \<open>
  Claim C2. In every call that passes validation and in which the remote API returns a
  response with a non-empty text, \<^verbatim>\<open>transcribeAudio\<close> returns that text with the
  response's chunks (the empty list when the response has none); the remote API is the
  only backend invoked, and the outcome does not depend on the local backend.
\<close>

theorem nonempty_api_text_short_circuits:
  assumes "list_ex (startsWith (file_type f)) supportedFormats" "file_size f \<le> maxSize"
    and "api_post b f = ApiResponse (Some d)" "data_text d = Some t" "t \<noteq> []"
  shows "transcribeAudio b f =
           ([RemoteAPI],
            Inr \<lparr>res_text = t,
                 res_chunks = (case data_chunks d of Some cs \<Rightarrow> cs | None \<Rightarrow> [])\<rparr>)
       \<and> LocalModel \<notin> set (fst (transcribeAudio b f))
       \<and> transcribeAudio (b\<lparr>local_model := other\<rparr>) f = transcribeAudio b f"
  using assms
  by (simp add: transcribeAudio_valid tryBackends_def wrapProcessing_def)

theorem nonempty_api_text_short_circuits_witness:
  "list_ex (startsWith ''audio/wav'') supportedFormats \<and> (1000::nat) \<le> maxSize
   \<and> ''hi'' \<noteq> []
   \<and> transcribeAudio
        \<lparr>api_post = (\<lambda>f. ApiResponse (Some \<lparr>data_text = Some ''hi'',
             data_chunks = Some [\<lparr>chunk_text = ''hi'', chunk_start = 0, chunk_end = 1\<rparr>]\<rparr>)),
         local_model = (\<lambda>f. Inr \<lparr>res_text = ''local'', res_chunks = []\<rparr>)\<rparr>
        \<lparr>file_type = ''audio/wav'', file_size = 1000\<rparr>
     = ([RemoteAPI], Inr \<lparr>res_text = ''hi'',
          res_chunks = [\<lparr>chunk_text = ''hi'', chunk_start = 0, chunk_end = 1\<rparr>]\<rparr>)"
  using nonempty_api_text_short_circuits
          [of "\<lparr>file_type = ''audio/wav'', file_size = 1000\<rparr>"
              "\<lparr>api_post = (\<lambda>f. ApiResponse (Some \<lparr>data_text = Some ''hi'',
             data_chunks = Some [\<lparr>chunk_text = ''hi'', chunk_start = 0, chunk_end = 1\<rparr>]\<rparr>)),
                local_model = (\<lambda>f. Inr \<lparr>res_text = ''local'', res_chunks = []\<rparr>)\<rparr>"
              "\<lparr>data_text = Some ''hi'',
             data_chunks = Some [\<lparr>chunk_text = ''hi'', chunk_start = 0, chunk_end = 1\<rparr>]\<rparr>"
              "''hi''"]
  by (simp add: supportedFormats_def startsWith_def maxSize_def)

section \<open>Properties of binary64 rounding\<close>

text \<open>The binary exponent brackets its argument between two powers of 2.\<close>

lemma ilog2_bounds:
  assumes "0 < x"
  shows "2 powi (ilog2 x) \<le> x \<and> x < 2 powi (ilog2 x + 1)"
proof (cases "1 \<le> x")
  case True
  then have a: "0 < \<lfloor>x\<rfloor>" by simp
  from bitlen_bounds [OF a]
  have lo: "(2::int) ^ nat (bitlen \<lfloor>x\<rfloor> - 1) \<le> \<lfloor>x\<rfloor>" and hi: "\<lfloor>x\<rfloor> < (2::int) ^ nat (bitlen \<lfloor>x\<rfloor>)"
    by simp_all
  have b1: "1 \<le> bitlen \<lfloor>x\<rfloor>" using a by (simp add: bitlen_alt_def)
  have e: "ilog2 x = bitlen \<lfloor>x\<rfloor> - 1" using True by (simp add: ilog2_def)
  have "(2::real) powi (bitlen \<lfloor>x\<rfloor> - 1) = of_int ((2::int) ^ nat (bitlen \<lfloor>x\<rfloor> - 1))"
    using b1 by (simp add: power_int_nonneg_exp)
  also have "\<dots> \<le> of_int \<lfloor>x\<rfloor>" using lo by (simp only: of_int_le_iff)
  also have "\<dots> \<le> x" by simp
  finally have L: "2 powi (ilog2 x) \<le> x" by (simp add: e)
  have "\<lfloor>x\<rfloor> + 1 \<le> (2::int) ^ nat (bitlen \<lfloor>x\<rfloor>)" using hi by simp
  then have "of_int (\<lfloor>x\<rfloor> + 1) \<le> (of_int ((2::int) ^ nat (bitlen \<lfloor>x\<rfloor>)) :: real)"
    by (simp only: of_int_le_iff)
  moreover have "x < of_int (\<lfloor>x\<rfloor> + 1)" by linarith
  ultimately have "x < of_int ((2::int) ^ nat (bitlen \<lfloor>x\<rfloor>))" by linarith
  also have "\<dots> = 2 powi (bitlen \<lfloor>x\<rfloor>)" using b1 by (simp add: power_int_nonneg_exp)
  finally have "x < 2 powi (ilog2 x + 1)" by (simp add: e)
  with L show ?thesis by simp
next
  case False
  let ?y = "1 / x"
  let ?c = "\<lceil>?y\<rceil> - 1"
  from False assms have y: "1 < ?y" by simp
  then have c: "0 < ?c" by linarith
  from bitlen_bounds [OF c]
  have lo: "(2::int) ^ nat (bitlen ?c - 1) \<le> ?c" and hi: "?c < (2::int) ^ nat (bitlen ?c)"
    by simp_all
  have b1: "1 \<le> bitlen ?c" using c by (simp add: bitlen_alt_def)
  have e: "ilog2 x = - bitlen ?c" using False by (simp add: ilog2_def)
  have "?y \<le> of_int (?c + 1)" by simp
  also have "\<dots> \<le> of_int ((2::int) ^ nat (bitlen ?c))"
    using hi by (simp only: of_int_le_iff)
  also have "\<dots> = 2 powi (bitlen ?c)" using b1 by (simp add: power_int_nonneg_exp)
  finally have "1 / x \<le> 2 powi (bitlen ?c)" .
  then have "1 \<le> x * 2 powi (bitlen ?c)" using assms by (simp add: field_simps)
  then have L: "2 powi (ilog2 x) \<le> x"
    by (simp add: e power_int_minus field_simps)
  have "(2::real) powi (bitlen ?c - 1) = of_int ((2::int) ^ nat (bitlen ?c - 1))"
    using b1 by (simp add: power_int_nonneg_exp)
  also have "\<dots> \<le> of_int ?c" using lo by (simp only: of_int_le_iff)
  also have "\<dots> < ?y" by linarith
  finally have "2 powi (bitlen ?c - 1) < 1 / x" .
  then have "x * 2 powi (bitlen ?c - 1) < 1" using assms by (simp add: field_simps)
  moreover have "(2::real) powi (ilog2 x + 1) = 1 / 2 powi (bitlen ?c - 1)"
    by (simp add: e power_int_minus_divide [symmetric])
  ultimately have "x * 2 powi (bitlen ?c - 1) < 2 powi (ilog2 x + 1) * 2 powi (bitlen ?c - 1)"
    by simp
  then have "x < 2 powi (ilog2 x + 1)"
    by (simp only: mult_less_cancel_right) simp
  with L show ?thesis by simp
qed


text \<open>Rounding to an integer moves a number by at most 1/2 and fixes the integers.\<close>

lemma roundTiesToEven_error: "\<bar>of_int (roundTiesToEven y) - y\<bar> \<le> 1 / 2"
  unfolding roundTiesToEven_def Let_def by (auto split: if_splits)

lemma roundTiesToEven_of_int [simp]: "roundTiesToEven (of_int m) = m"
  by (simp add: roundTiesToEven_def)

lemma fl64_zero [simp]: "fl64 0 = 0"
  by (simp add: fl64_def)

text \<open>The relative error of one rounding is at most \<open>2\<^sup>-\<^sup>5\<^sup>3\<close>.\<close>

lemma fl64_error: "\<bar>fl64 x - x\<bar> \<le> \<bar>x\<bar> / 2 ^ 53"
proof (cases "x = 0")
  case True
  then show ?thesis by simp
next
  case False
  let ?e = "ilog2 \<bar>x\<bar> - 52"
  let ?s = "(2::real) powi ?e"
  have s: "0 < ?s" by simp
  from False have "0 < \<bar>x\<bar>" by simp
  from ilog2_bounds [OF this] have "2 powi (ilog2 \<bar>x\<bar>) \<le> \<bar>x\<bar>" by simp
  moreover have "(2::real) powi (ilog2 \<bar>x\<bar>) = ?s * 2 ^ 52"
    by (simp add: power_int_diff)
  ultimately have sx: "?s * 2 ^ 52 \<le> \<bar>x\<bar>" by simp
  have "fl64 x - x = (of_int (roundTiesToEven (x / ?s)) - x / ?s) * ?s"
    using False by (simp add: fl64_def Let_def algebra_simps)
  then have "\<bar>fl64 x - x\<bar> = \<bar>of_int (roundTiesToEven (x / ?s)) - x / ?s\<bar> * ?s"
    using s by (simp add: abs_mult)
  also have "\<dots> \<le> (1 / 2) * ?s"
    using roundTiesToEven_error [of "x / ?s"] s by (intro mult_right_mono) simp_all
  also have "\<dots> \<le> \<bar>x\<bar> / 2 ^ 53" using sx by simp
  finally show ?thesis .
qed

lemma fl64_upper:
  assumes "0 \<le> x"
  shows "fl64 x \<le> x * (1 + 1 / 2 ^ 53)"
proof -
  have "fl64 x - x \<le> \<bar>x\<bar> / 2 ^ 53" using fl64_error [of x] by linarith
  then have "fl64 x \<le> x + x / 2 ^ 53" using assms by simp
  then show ?thesis by (simp add: algebra_simps)
qed

lemma fl64_lower:
  assumes "0 \<le> x"
  shows "x * (1 - 1 / 2 ^ 53) \<le> fl64 x"
proof -
  have "x - fl64 x \<le> \<bar>x\<bar> / 2 ^ 53" using fl64_error [of x] by linarith
  then have "x - x / 2 ^ 53 \<le> fl64 x" using assms by simp
  then show ?thesis by (simp add: algebra_simps)
qed

lemma fl64_pos: "0 < x \<Longrightarrow> 0 < fl64 x"
proof -
  assume x: "0 < x"
  then have "0 < x * (1 - 1 / 2 ^ 53)" by simp
  also have "\<dots> \<le> fl64 x" using x by (intro fl64_lower) simp
  finally show ?thesis .
qed

lemma fl64_nonneg: "0 \<le> x \<Longrightarrow> 0 \<le> fl64 x"
  using fl64_pos [of x] by (cases "x = 0") simp_all

text \<open>A number with at most 53 significant bits is not changed.\<close>

lemma fl64_exact:
  assumes "\<bar>m\<bar> < 2 ^ 53"
  shows "fl64 (of_int m * 2 powi k) = of_int m * 2 powi k"
proof (cases "m = 0")
  case True
  then show ?thesis by simp
next
  case False
  let ?x = "of_int m * (2::real) powi k"
  let ?e = "ilog2 \<bar>?x\<bar> - 52"
  have x0: "?x \<noteq> 0" using False by simp
  then have "0 < \<bar>?x\<bar>" by simp
  from ilog2_bounds [OF this] have "2 powi (ilog2 \<bar>?x\<bar>) \<le> \<bar>?x\<bar>" by simp
  also have "\<bar>?x\<bar> = of_int \<bar>m\<bar> * 2 powi k" by (simp add: abs_mult)
  also have "\<dots> < 2 ^ 53 * 2 powi k"
  proof -
    have "(of_int \<bar>m\<bar> :: real) < of_int (2 ^ 53)" using assms by (simp only: of_int_less_iff)
    then show ?thesis by simp
  qed
  also have "\<dots> = 2 powi (53 + k)" by (simp add: power_int_add)
  finally have "(2::real) powi (ilog2 \<bar>?x\<bar>) < 2 powi (53 + k)" .
  then have "ilog2 \<bar>?x\<bar> < 53 + k"
    by (metis linorder_not_less one_le_numeral power_int_increasing)
  then have ek: "0 \<le> k - ?e" by simp
  have "?x / 2 powi ?e = of_int m * 2 powi (k - ?e)"
    by (simp add: power_int_diff)
  also have "\<dots> = of_int (m * 2 ^ nat (k - ?e))"
    using ek by (simp add: power_int_nonneg_exp)
  finally have "roundTiesToEven (?x / 2 powi ?e) = m * 2 ^ nat (k - ?e)"
    by (simp only: roundTiesToEven_of_int)
  then have "fl64 ?x = of_int (m * 2 ^ nat (k - ?e)) * 2 powi ?e"
    using x0 by (simp add: fl64_def Let_def)
  also have "\<dots> = of_int m * (2 powi (k - ?e) * 2 powi ?e)"
    using ek by (simp add: power_int_nonneg_exp)
  also have "2 powi (k - ?e) * (2::real) powi ?e = 2 powi k"
    by (simp add: power_int_add [symmetric])
  finally show ?thesis .
qed

lemma fl64_of_nat: "n < 2 ^ 53 \<Longrightarrow> fl64 (real n) = real n"
proof -
  assume "n < 2 ^ 53"
  then have "\<bar>int n\<bar> < 2 ^ 53" by simp
  from fl64_exact [OF this, of 0] show ?thesis by simp
qed

text \<open>
  The resampling loop in binary64: every index read lies inside the source, as long as
  the product of length and ratio stays below \<open>2\<^sup>5\<^sup>1\<close>.
\<close>

lemma resample_index_in_range:
  assumes r: "0 < r" and small: "real n * r < 2 ^ 51"
    and i: "int i < \<lfloor>fl64 (real n * r)\<rfloor>"
  shows "0 \<le> \<lfloor>fl64 (real i / r)\<rfloor> \<and> \<lfloor>fl64 (real i / r)\<rfloor> < int n"
proof
  have "0 \<le> real i / r" using r by simp
  then have "0 \<le> fl64 (real i / r)" by (rule fl64_nonneg)
  then show "0 \<le> \<lfloor>fl64 (real i / r)\<rfloor>" by simp
next
  let ?P = "real n * r"
  let ?G = "fl64 (real i / r)"
  have P0: "0 \<le> ?P" using r by simp
  have "real i + 1 \<le> of_int \<lfloor>fl64 ?P\<rfloor>" using i by linarith
  also have "\<dots> \<le> fl64 ?P" by simp
  also have "\<dots> \<le> ?P * (1 + 1 / 2 ^ 53)" using P0 by (rule fl64_upper)
  finally have A: "real i + 1 \<le> ?P * (1 + 1 / 2 ^ 53)" .
  have "?G \<le> (real i / r) * (1 + 1 / 2 ^ 53)" using r by (intro fl64_upper) simp
  then have "?G * r \<le> (real i / r) * (1 + 1 / 2 ^ 53) * r"
    using r by (intro mult_right_mono) simp_all
  also have "\<dots> = real i * (1 + 1 / 2 ^ 53)" using r by simp
  finally have B: "?G * r \<le> real i * (1 + 1 / 2 ^ 53)" .
  from A B small have "?G * r < ?P" by simp
  then have "?G < real n" using r by simp
  then show "\<lfloor>?G\<rfloor> < int n" by (simp add: floor_less_iff)
qed


text \<open>Evaluating a rounding once the binary exponent of the argument is known.\<close>

lemma ilog2_eqI:
  assumes "2 powi k \<le> x" "x < 2 powi (k + 1)"
  shows "ilog2 x = k"
proof -
  have "0 < (2::real) powi k" by simp
  with assms(1) have x: "0 < x" by linarith
  from ilog2_bounds [OF x] have b: "2 powi (ilog2 x) \<le> x" "x < 2 powi (ilog2 x + 1)" by simp_all
  have "(2::real) powi k < 2 powi (ilog2 x + 1)" using assms(1) b(2) by simp
  then have 1: "k < ilog2 x + 1"
    by (metis linorder_not_less one_le_numeral power_int_increasing)
  have "(2::real) powi (ilog2 x) < 2 powi (k + 1)" using assms(2) b(1) by simp
  then have 2: "ilog2 x < k + 1"
    by (metis linorder_not_less one_le_numeral power_int_increasing)
  from 1 2 show ?thesis by simp
qed

lemma fl64_eval:
  assumes "2 powi k \<le> \<bar>x\<bar>" "\<bar>x\<bar> < 2 powi (k + 1)"
  shows "fl64 x = of_int (roundTiesToEven (x / 2 powi (k - 52))) * 2 powi (k - 52)"
proof -
  have e: "ilog2 \<bar>x\<bar> = k" using assms by (rule ilog2_eqI)
  have p: "0 < (2::real) powi k" by simp
  from assms(1) p have "0 < \<bar>x\<bar>" by linarith
  then have "x \<noteq> 0" by simp
  with e show ?thesis by (simp add: fl64_def Let_def)
qed

lemma fl64_numeral: "numeral w < (2::nat) ^ 53 \<Longrightarrow> fl64 (numeral w) = numeral w"
  using fl64_of_nat [of "numeral w"] by simp

lemma fl64_one [simp]: "fl64 1 = 1"
  using fl64_of_nat [of 1] by simp

text \<open>
  The run of the resampler at 49000 Hz on 49 samples: the quotient 16000 / 49000 is
  rounded down, the product falls just below 16, and 15 samples are returned.
\<close>

lemma fl64_ratio_49000: "fl64 (16000 / 49000) = 5882252574524729 / 2 ^ 54"
  using fl64_eval [of "-2" "16000 / 49000"]
  by (simp add: roundTiesToEven_def Let_def power_int_minus_divide)

lemma fl64_product_49000: "fl64 (49 * (5882252574524729 / 2 ^ 54)) = 9007199254740991 / 2 ^ 49"
  using fl64_eval [of 3 "49 * (5882252574524729 / 2 ^ 54)"]
  by (simp add: roundTiesToEven_def Let_def power_int_minus_divide)

lemma resampledLength_49000: "\<lfloor>fl64 (real 49 * fl64 (16000 / 49000))\<rfloor> = 15"
proof -
  have n: "real 49 = 49" by simp
  show ?thesis unfolding n fl64_ratio_49000 fl64_product_49000 by simp
qed

text \<open>
  The run at 92800 Hz: the quotient 5 / ratio falls just below 29, so output sample 5 is
  read from index 28.
\<close>

lemma fl64_ratio_92800: "fl64 (16000 / 92800) = 1552965388748447 / 2 ^ 53"
  using fl64_eval [of "-3" "16000 / 92800"]
  by (simp add: roundTiesToEven_def Let_def power_int_minus_divide)

lemma fl64_quotient_92800: "fl64 (5 / (1552965388748447 / 2 ^ 53)) = 8162774324609023 / 2 ^ 48"
  using fl64_eval [of 4 "5 / (1552965388748447 / 2 ^ 53)"]
  by (simp add: roundTiesToEven_def Let_def power_int_minus_divide)

lemma resampleIndex_92800: "\<lfloor>fl64 (real 5 / fl64 (16000 / 92800))\<rfloor> = 28"
proof -
  have n: "real 5 = 5" by simp
  show ?thesis unfolding n fl64_ratio_92800 fl64_quotient_92800 by simp
qed

section \<open>Properties of the normalizer\<close>

text \<open>The running maximum never falls below its start and dominates every sample.\<close>

lemma peak_fold_ge:
  "m \<le> foldl (\<lambda>m x. if \<bar>x\<bar> > m then \<bar>x\<bar> else m) m xs"
  "x \<in> set xs \<Longrightarrow> \<bar>x\<bar> \<le> foldl (\<lambda>m x. if \<bar>x\<bar> > m then \<bar>x\<bar> else m) (m::real) xs"
proof (induction xs arbitrary: m)
  case Nil
  { case 1 show ?case by simp }
  { case 2 then show ?case by simp }
next
  case (Cons a xs)
  { case 1
    have "m \<le> (if \<bar>a\<bar> > m then \<bar>a\<bar> else m)" by simp
    also have "\<dots> \<le> foldl (\<lambda>m x. if \<bar>x\<bar> > m then \<bar>x\<bar> else m) (if \<bar>a\<bar> > m then \<bar>a\<bar> else m) xs"
      by (rule Cons.IH(1))
    finally show ?case by simp }
  { case 2
    show ?case
    proof (cases "x = a")
      case True
      have "\<bar>a\<bar> \<le> (if \<bar>a\<bar> > m then \<bar>a\<bar> else m)" by simp
      also have "\<dots> \<le> foldl (\<lambda>m x. if \<bar>x\<bar> > m then \<bar>x\<bar> else m) (if \<bar>a\<bar> > m then \<bar>a\<bar> else m) xs"
        by (rule Cons.IH(1))
      finally show ?thesis using True by simp
    next
      case False
      with 2 have "x \<in> set xs" by simp
      then show ?thesis using Cons.IH(2) by simp
    qed }
qed

text \<open>The running maximum is its start or the absolute value of some sample.\<close>

lemma peak_fold_attained:
  "foldl (\<lambda>m x. if \<bar>x\<bar> > m then \<bar>x\<bar> else m) m xs = (m::real)
   \<or> (\<exists>x\<in>set xs. \<bar>x\<bar> = foldl (\<lambda>m x. if \<bar>x\<bar> > m then \<bar>x\<bar> else m) m xs)"
proof (induction xs arbitrary: m)
  case Nil
  show ?case by simp
next
  case (Cons a xs)
  from Cons.IH [of "if \<bar>a\<bar> > m then \<bar>a\<bar> else m"] show ?case
    by (auto split: if_splits)
qed

lemma maxAbsValue_nonneg: "0 \<le> maxAbsValue xs"
  unfolding maxAbsValue_def by (rule peak_fold_ge(1))

lemma maxAbsValue_bound: "x \<in> set xs \<Longrightarrow> \<bar>x\<bar> \<le> maxAbsValue xs"
  unfolding maxAbsValue_def by (rule peak_fold_ge(2))

lemma maxAbsValue_attained: "maxAbsValue xs = 0 \<or> (\<exists>x\<in>set xs. \<bar>x\<bar> = maxAbsValue xs)"
  unfolding maxAbsValue_def by (rule peak_fold_attained)

lemma orOne_pos: "0 < orOne (maxAbsValue xs)"
  using maxAbsValue_nonneg [of xs] by (simp add: orOne_def)

lemma normalizedData_Val:
  "normalizedData xs = map (\<lambda>x. Val (x / orOne (maxAbsValue xs))) xs"
  using orOne_pos [of xs] by (simp add: normalizedData_def jsDivide_def)

lemma normalized_le_one:
  assumes "x \<in> set xs"
  shows "\<bar>x / orOne (maxAbsValue xs)\<bar> \<le> 1"
proof -
  have "\<bar>x\<bar> \<le> maxAbsValue xs" using assms by (rule maxAbsValue_bound)
  moreover have "maxAbsValue xs \<le> orOne (maxAbsValue xs)" by (simp add: orOne_def)
  ultimately have "\<bar>x\<bar> \<le> orOne (maxAbsValue xs)" by simp
  with orOne_pos [of xs] show ?thesis by simp
qed

text \<open>The largest absolute value of a buffer of bounded finite samples.\<close>

lemma maxAbsOf_bounded:
  assumes "\<forall>s\<in>set out. \<exists>v. s = Val v \<and> \<bar>v\<bar> \<le> c" "0 \<le> c"
  shows "\<exists>m. maxAbsOf out = Some m \<and> 0 \<le> m \<and> m \<le> c"
  using assms
proof (induction out)
  case Nil
  then show ?case by simp
next
  case (Cons s out)
  then obtain v where v: "s = Val v" "\<bar>v\<bar> \<le> c" by auto
  from Cons obtain m where m: "maxAbsOf out = Some m" "0 \<le> m" "m \<le> c" by auto
  from v m show ?case by (simp add: max_def)
qed

lemma maxAbsOf_attained:
  assumes "\<forall>s\<in>set out. \<exists>v. s = Val v \<and> \<bar>v\<bar> \<le> c" "0 \<le> c"
    and "\<exists>v. Val v \<in> set out \<and> \<bar>v\<bar> = c"
  shows "maxAbsOf out = Some c"
  using assms
proof (induction out)
  case Nil
  then show ?case by simp
next
  case (Cons s out)
  then obtain v where v: "s = Val v" "\<bar>v\<bar> \<le> c" by auto
  from Cons.prems(1,2) obtain m where m: "maxAbsOf out = Some m" "0 \<le> m" "m \<le> c"
    using maxAbsOf_bounded [of out c] by auto
  show ?case
  proof (cases "\<bar>v\<bar> = c")
    case True
    with v m show ?thesis by (simp add: max_def)
  next
    case False
    with Cons.prems(3) v have "\<exists>w. Val w \<in> set out \<and> \<bar>w\<bar> = c" by auto
    with Cons have "maxAbsOf out = Some c" by auto
    with v show ?thesis by (simp add: max_def)
  qed
qed

text \<open>Silence: the maximum is 0 and every normalized sample is 0.\<close>

lemma maxAbsValue_silence:
  assumes "list_all (\<lambda>x. x = 0) xs"
  shows "maxAbsValue xs = 0"
  using maxAbsValue_attained [of xs] assms by (auto simp add: list_all_iff)

lemma normalizedData_silence:
  assumes "list_all (\<lambda>x. x = 0) xs"
  shows "normalizedData xs = replicate (length xs) (Val 0)"
proof -
  have "map (\<lambda>x. Val (x / orOne (maxAbsValue xs))) xs = map (\<lambda>x. Val 0) xs"
    using assms by (intro map_cong) (auto simp add: list_all_iff)
  then show ?thesis by (simp add: normalizedData_Val map_replicate_const)
qed

lemma maxAbsOf_silence: "maxAbsOf (replicate k (Val 0)) = Some 0"
  by (induction k) simp_all

text \<open>Without resampling the peak is 0 for silence and 1 for every other input.\<close>

lemma normalizedData_peak:
  "maxAbsOf (normalizedData xs) = Some (if list_all (\<lambda>x. x = 0) xs then 0 else 1)"
proof (cases "list_all (\<lambda>x. x = 0) xs")
  case True
  then show ?thesis by (simp add: normalizedData_silence maxAbsOf_silence)
next
  case False
  then obtain y where y: "y \<in> set xs" "y \<noteq> 0" by (auto simp add: list_all_iff)
  then have "0 < \<bar>y\<bar>" by simp
  also have "\<bar>y\<bar> \<le> maxAbsValue xs" using y(1) by (rule maxAbsValue_bound)
  finally have pos: "maxAbsValue xs \<noteq> 0" by simp
  then obtain x where x: "x \<in> set xs" "\<bar>x\<bar> = maxAbsValue xs"
    using maxAbsValue_attained [of xs] by auto
  from pos have d: "orOne (maxAbsValue xs) = maxAbsValue xs" by (simp add: orOne_def)
  have "\<bar>x / orOne (maxAbsValue xs)\<bar> = 1" using x pos d by simp
  moreover have "Val (x / orOne (maxAbsValue xs)) \<in> set (normalizedData xs)"
    using x by (auto simp add: normalizedData_Val)
  ultimately have "\<exists>v. Val v \<in> set (normalizedData xs) \<and> \<bar>v\<bar> = 1" by blast
  moreover have "\<forall>s\<in>set (normalizedData xs). \<exists>v. s = Val v \<and> \<bar>v\<bar> \<le> 1"
    using normalized_le_one by (auto simp add: normalizedData_Val)
  ultimately have "maxAbsOf (normalizedData xs) = Some 1"
    by (intro maxAbsOf_attained) simp_all
  with False show ?thesis by simp
qed

text \<open>The rounded ratio of a rate of at least 1 Hz, and the product with a length.\<close>

lemma resampleRatio_bounds:
  assumes "1 \<le> rate"
  shows "0 < fl64 (16000 / rate)" "fl64 (16000 / rate) \<le> 16001"
proof -
  have q: "0 < 16000 / rate" "16000 / rate \<le> 16000" using assms by (simp_all add: field_simps)
  from q(1) show "0 < fl64 (16000 / rate)" by (rule fl64_pos)
  have "fl64 (16000 / rate) \<le> (16000 / rate) * (1 + 1 / 2 ^ 53)"
    using q(1) by (intro fl64_upper) simp
  also have "\<dots> \<le> 16000 * (1 + 1 / 2 ^ 53)"
    using q(2) by (intro mult_right_mono) simp_all
  also have "\<dots> \<le> 16001" by simp
  finally show "fl64 (16000 / rate) \<le> 16001" .
qed

lemma resample_product_small:
  assumes "1 \<le> rate" "n < 2 ^ 32"
  shows "real n * fl64 (16000 / rate) < 2 ^ 51"
proof -
  have "real n \<le> 2 ^ 32" using assms(2) by (simp add: of_nat_less_numeral_power_cancel_iff less_imp_le)
  then have "real n * fl64 (16000 / rate) \<le> 2 ^ 32 * 16001"
    using resampleRatio_bounds [OF assms(1)] by (intro mult_mono) simp_all
  also have "\<dots> < (2::real) ^ 51" by simp
  finally show ?thesis .
qed

text \<open>The outcome of the call on a decoded buffer that is resampled.\<close>

lemma convert_resampled:
  assumes "1 \<le> sampleRate buf" "sampleRate buf \<noteq> 16000" "length (channelData buf) < 2 ^ 32"
  shows "convertToFloat32Array (Some buf) =
           Inr (map (\<lambda>i. normalizedData (channelData buf)
                            ! nat \<lfloor>fl64 (real i / fl64 (16000 / sampleRate buf))\<rfloor>)
                  [0..<nat \<lfloor>fl64 (real (length (channelData buf))
                                    * fl64 (16000 / sampleRate buf))\<rfloor>])"
proof -
  let ?r = "fl64 (16000 / sampleRate buf)"
  let ?n = "length (channelData buf)"
  have r: "0 < ?r" using assms(1) by (rule resampleRatio_bounds)
  have small: "real ?n * ?r < 2 ^ 51" using assms(1,3) by (rule resample_product_small)
  have len: "length (normalizedData (channelData buf)) = ?n" by (simp add: normalizedData_def)
  have "0 \<le> fl64 (real ?n * ?r)" using r by (intro fl64_nonneg) simp
  then have nonneg: "\<not> \<lfloor>fl64 (real ?n * ?r)\<rfloor> < 0" by (simp add: not_less)
  have rate: "sampleRate buf \<noteq> 0" using assms(1) by simp
  have "map (\<lambda>i. readAt (normalizedData (channelData buf)) \<lfloor>fl64 (real i / ?r)\<rfloor>)
          [0..<nat \<lfloor>fl64 (real ?n * ?r)\<rfloor>]
      = map (\<lambda>i. normalizedData (channelData buf) ! nat \<lfloor>fl64 (real i / ?r)\<rfloor>)
          [0..<nat \<lfloor>fl64 (real ?n * ?r)\<rfloor>]"
  proof (rule map_cong [OF refl])
    fix i assume "i \<in> set [0..<nat \<lfloor>fl64 (real ?n * ?r)\<rfloor>]"
    then have "int i < \<lfloor>fl64 (real ?n * ?r)\<rfloor>" by auto
    from resample_index_in_range [OF r small this]
    show "readAt (normalizedData (channelData buf)) \<lfloor>fl64 (real i / ?r)\<rfloor>
        = normalizedData (channelData buf) ! nat \<lfloor>fl64 (real i / ?r)\<rfloor>"
      by (simp add: readAt_def len)
  qed
  with assms(2) nonneg rate show ?thesis
    by (simp add: convertToFloat32Array_def Let_def len)
qed

lemma convert_same_rate:
  assumes "sampleRate buf = 16000"
  shows "convertToFloat32Array (Some buf) = Inr (normalizedData (channelData buf))"
  using assms by (simp add: convertToFloat32Array_def Let_def)

text \<open>Every resampled sample is one of the normalized samples.\<close>

lemma resampled_subset:
  assumes "1 \<le> rate" "length xs < 2 ^ 32"
  shows "set (map (\<lambda>i. normalizedData xs ! nat \<lfloor>fl64 (real i / fl64 (16000 / rate))\<rfloor>)
               [0..<nat \<lfloor>fl64 (real (length xs) * fl64 (16000 / rate))\<rfloor>])
         \<subseteq> set (normalizedData xs)"
proof
  let ?r = "fl64 (16000 / rate)"
  let ?K = "nat \<lfloor>fl64 (real (length xs) * ?r)\<rfloor>"
  fix s assume "s \<in> set (map (\<lambda>i. normalizedData xs ! nat \<lfloor>fl64 (real i / ?r)\<rfloor>) [0..<?K])"
  then have "s \<in> (\<lambda>i. normalizedData xs ! nat \<lfloor>fl64 (real i / ?r)\<rfloor>) ` set [0..<?K]"
    by (simp only: set_map)
  then obtain i where i0: "i \<in> set [0..<?K]"
    and s: "s = normalizedData xs ! nat \<lfloor>fl64 (real i / ?r)\<rfloor>"
    by (rule imageE)
  from i0 have i: "int i < \<lfloor>fl64 (real (length xs) * ?r)\<rfloor>" by auto
  have r: "0 < ?r" using assms(1) by (rule resampleRatio_bounds)
  have small: "real (length xs) * ?r < 2 ^ 51" using assms by (rule resample_product_small)
  from resample_index_in_range [OF r small i]
  have "nat \<lfloor>fl64 (real i / ?r)\<rfloor> < length (normalizedData xs)"
    by (simp add: normalizedData_def) linarith
  with s show "s \<in> set (normalizedData xs)" by simp
qed

text \<open>Binary fractions used in the runs below.\<close>

lemma fl64_half: "fl64 (1 / 2) = 1 / 2"
  using fl64_exact [of 1 "-1"] by (simp add: power_int_minus_divide)

lemma fl64_quarter: "fl64 (1 / 4) = 1 / 4"
  using fl64_exact [of 1 "-2"] by (simp add: power_int_minus_divide)

lemma fl64_seven_quarters: "fl64 (7 / 4) = 7 / 4"
  using fl64_exact [of 7 "-2"] by (simp add: power_int_minus_divide)

lemma fl64_three_halves: "fl64 (3 / 2) = 3 / 2"
  using fl64_exact [of 3 "-1"] by (simp add: power_int_minus_divide)

text \<open>
  Claim C3, as stated: the returned buffer has maximum absolute value 0 or exactly 1,
  also when it is resampled. Normalization runs before resampling and the resampler
  keeps only the samples at the indices \<open>\<lfloor>i / ratio\<rfloor>\<close>: at 32000 Hz every second
  sample is dropped, here the peak, and the maximum of the result is 1/2. Every number
  of this run is a binary fraction, so no operation rounds.
\<close>

theorem resampling_drops_peak_counterexample:
  "convertToFloat32Array (Some \<lparr>sampleRate = 32000, channelData = [1/4, 1, 1/2, -1/4]\<rparr>)
     = Inr [Val (1/4), Val (1/2)]
   \<and> maxAbsOf [Val (1/4), Val (1/2)] = Some (1/2)"
  by (simp add: convertToFloat32Array_def normalizedData_def maxAbsValue_def orOne_def
        jsDivide_def readAt_def Let_def upt_rec fl64_half fl64_numeral)

text \<open>The peak of a buffer made of normalized samples.\<close>

lemma peak_of_normalized_samples:
  assumes "set out \<subseteq> set (normalizedData xs)"
  shows "\<exists>m. maxAbsOf out = Some m \<and> 0 \<le> m \<and> m \<le> 1
             \<and> (list_all (\<lambda>x. x = 0) xs \<longrightarrow> m = 0)"
proof (cases "list_all (\<lambda>x. x = 0) xs")
  case True
  then have "set (normalizedData xs) \<subseteq> {Val 0}"
    by (auto simp add: normalizedData_silence)
  with assms have "\<forall>s\<in>set out. \<exists>v. s = Val v \<and> \<bar>v\<bar> \<le> 0" by auto
  then have "\<exists>m. maxAbsOf out = Some m \<and> 0 \<le> m \<and> m \<le> 0"
    by (intro maxAbsOf_bounded) simp_all
  then show ?thesis by auto
next
  case False
  have "\<forall>s\<in>set (normalizedData xs). \<exists>v. s = Val v \<and> \<bar>v\<bar> \<le> 1"
    using normalized_le_one by (auto simp add: normalizedData_Val)
  with assms have "\<forall>s\<in>set out. \<exists>v. s = Val v \<and> \<bar>v\<bar> \<le> 1" by blast
  then have "\<exists>m. maxAbsOf out = Some m \<and> 0 \<le> m \<and> m \<le> 1"
    by (intro maxAbsOf_bounded) simp_all
  with False show ?thesis by auto
qed

text \<open>
  Claim C3, amended: for every decoded input with a sample rate of at least 1 Hz (and,
  when it is resampled, fewer than \<open>2\<^sup>3\<^sup>2\<close> samples) the call returns a buffer made of
  peak-normalized samples of the input, all finite, whose maximum absolute value lies
  between 0 and 1 and is 0 for all-silence input. When the source rate is the 16000 Hz
  target, so that no resampling takes place, that maximum is 0 for all-silence input
  and exactly 1 for every other input.
\<close>

theorem normalizer_peak:
  assumes "1 \<le> sampleRate buf"
    and "sampleRate buf = 16000 \<or> length (channelData buf) < 2 ^ 32"
  shows "\<exists>out m. convertToFloat32Array (Some buf) = Inr out
           \<and> set out \<subseteq> set (normalizedData (channelData buf))
           \<and> maxAbsOf out = Some m \<and> 0 \<le> m \<and> m \<le> 1
           \<and> (list_all (\<lambda>x. x = 0) (channelData buf) \<longrightarrow> m = 0)
           \<and> (sampleRate buf = 16000 \<longrightarrow>
                 m = (if list_all (\<lambda>x. x = 0) (channelData buf) then 0 else 1))"
proof (cases "sampleRate buf = 16000")
  case True
  then have "convertToFloat32Array (Some buf) = Inr (normalizedData (channelData buf))"
    by (rule convert_same_rate)
  moreover have "maxAbsOf (normalizedData (channelData buf))
      = Some (if list_all (\<lambda>x. x = 0) (channelData buf) then 0 else 1)"
    by (rule normalizedData_peak)
  ultimately show ?thesis by auto
next
  case False
  let ?xs = "channelData buf"
  let ?out = "map (\<lambda>i. normalizedData ?xs ! nat \<lfloor>fl64 (real i / fl64 (16000 / sampleRate buf))\<rfloor>)
                [0..<nat \<lfloor>fl64 (real (length ?xs) * fl64 (16000 / sampleRate buf))\<rfloor>]"
  from False assms(2) have n: "length ?xs < 2 ^ 32" by simp
  have out: "convertToFloat32Array (Some buf) = Inr ?out"
    using assms(1) False n by (rule convert_resampled)
  have sub: "set ?out \<subseteq> set (normalizedData ?xs)"
    using assms(1) n by (rule resampled_subset)
  from peak_of_normalized_samples [OF sub] obtain m where
    "maxAbsOf ?out = Some m" "0 \<le> m" "m \<le> 1" "list_all (\<lambda>x. x = 0) ?xs \<longrightarrow> m = 0"
    by blast
  with out sub False show ?thesis by blast
qed

theorem normalizer_peak_witness:
  "(1::real) \<le> 16000
   \<and> convertToFloat32Array (Some \<lparr>sampleRate = 16000, channelData = [1/4, -2, 1/2]\<rparr>)
       = Inr [Val (1/8), Val (-1), Val (1/4)]
   \<and> \<not> list_all (\<lambda>x. x = 0) [1/4, -2, 1/2 :: real]
   \<and> maxAbsOf [Val (1/8), Val (-1), Val (1/4)] = Some 1"
  using normalizer_peak [of "\<lparr>sampleRate = 16000, channelData = [1/4, -2, 1/2]\<rparr>"]
  by (simp add: convertToFloat32Array_def normalizedData_def maxAbsValue_def orOne_def
        jsDivide_def Let_def)

text \<open>
  Claim C5, as stated: the resampled buffer has length
  \<open>round (sourceLength * targetRate / sourceRate)\<close>. The code takes the floor: seven
  samples at 64000 Hz give \<open>\<lfloor>1.75\<rfloor> = 1\<close> sample, while rounding gives 2. Every
  number of this run is a binary fraction, so no operation rounds.
\<close>

theorem floor_not_round_counterexample:
  "convertToFloat32Array
     (Some \<lparr>sampleRate = 64000, channelData = [1, 1/2, 1/2, 1/2, 1/2, 1/2, 1/2]\<rparr>) = Inr [Val 1]
   \<and> round (real (length [1, 1/2, 1/2, 1/2, 1/2, 1/2, 1/2 :: real]) * 16000 / 64000) = 2"
  by (simp add: convertToFloat32Array_def normalizedData_def maxAbsValue_def orOne_def
        jsDivide_def readAt_def Let_def upt_rec round_def fl64_quarter fl64_seven_quarters)

text \<open>Two roundings move the product by less than 1.\<close>

lemma resample_product_error:
  assumes "1 \<le> rate" "n < 2 ^ 32"
  shows "\<bar>fl64 (real n * fl64 (16000 / rate)) - real n * (16000 / rate)\<bar> < 1"
proof -
  let ?q = "16000 / rate"
  let ?r = "fl64 ?q"
  have q: "0 < ?q" "?q \<le> 16000" using assms(1) by (simp_all add: field_simps)
  have n: "real n \<le> 2 ^ 32" using assms(2) by (simp add: of_nat_less_numeral_power_cancel_iff less_imp_le)
  have r: "0 < ?r" using assms(1) by (rule resampleRatio_bounds)
  have small: "real n * ?r < 2 ^ 51" using assms by (rule resample_product_small)
  have "\<bar>fl64 (real n * ?r) - real n * ?r\<bar> \<le> \<bar>real n * ?r\<bar> / 2 ^ 53" by (rule fl64_error)
  also have "\<bar>real n * ?r\<bar> = real n * ?r" using r by simp
  also have "real n * ?r / 2 ^ 53 \<le> 2 ^ 51 / 2 ^ 53" using small by (intro divide_right_mono) simp_all
  finally have e1: "\<bar>fl64 (real n * ?r) - real n * ?r\<bar> \<le> 1 / 4" by simp
  have "\<bar>real n * ?r - real n * ?q\<bar> = \<bar>real n * (?r - ?q)\<bar>"
    by (simp only: right_diff_distrib)
  also have "\<dots> = real n * \<bar>?r - ?q\<bar>"
    by (simp only: abs_mult abs_of_nat)
  also have "\<dots> \<le> real n * (\<bar>?q\<bar> / 2 ^ 53)"
    by (intro mult_left_mono fl64_error) simp
  also have "\<dots> \<le> 2 ^ 32 * (16000 / 2 ^ 53)"
    using n q by (intro mult_mono divide_right_mono) simp_all
  also have "\<dots> \<le> 1 / 4" by simp
  finally have e2: "\<bar>real n * ?r - real n * ?q\<bar> \<le> 1 / 4" .
  from e1 e2 show ?thesis by linarith
qed

text \<open>
  Claim C5, amended: for every input whose source rate is at least 1 Hz and differs from
  the 16000 Hz target, with fewer than \<open>2\<^sup>3\<^sup>2\<close> samples, the resampler produces a buffer
  whose length is the floor of \<^verbatim>\<open>sourceLength * (16000 / sourceRate)\<close> as binary64
  arithmetic evaluates it, the quotient and the product each rounded to nearest. That
  length differs from the exact \<open>\<lfloor>sourceLength * 16000 / sourceRate\<rfloor>\<close> by at most one.
  Sample \<open>i\<close> of the result is the normalized sample at the index
  \<open>\<lfloor>i / (16000 / sourceRate)\<rfloor>\<close>, evaluated in the same arithmetic, and that index lies
  inside the source.
\<close>

theorem resampled_length_is_floor:
  assumes "1 \<le> sampleRate buf" "sampleRate buf \<noteq> 16000"
    and "length (channelData buf) < 2 ^ 32"
  shows "\<exists>out. convertToFloat32Array (Some buf) = Inr out
           \<and> int (length out)
               = \<lfloor>fl64 (real (length (channelData buf)) * fl64 (16000 / sampleRate buf))\<rfloor>
           \<and> \<lfloor>real (length (channelData buf)) * (16000 / sampleRate buf)\<rfloor> - 1
               \<le> int (length out)
           \<and> int (length out)
               \<le> \<lfloor>real (length (channelData buf)) * (16000 / sampleRate buf)\<rfloor> + 1
           \<and> (\<forall>i<length out.
                 nat \<lfloor>fl64 (real i / fl64 (16000 / sampleRate buf))\<rfloor> < length (channelData buf)
               \<and> out ! i = normalizedData (channelData buf)
                             ! nat \<lfloor>fl64 (real i / fl64 (16000 / sampleRate buf))\<rfloor>)"
proof -
  let ?xs = "channelData buf"
  let ?r = "fl64 (16000 / sampleRate buf)"
  let ?F = "fl64 (real (length ?xs) * ?r)"
  let ?E = "real (length ?xs) * (16000 / sampleRate buf)"
  let ?out = "map (\<lambda>i. normalizedData ?xs ! nat \<lfloor>fl64 (real i / ?r)\<rfloor>) [0..<nat \<lfloor>?F\<rfloor>]"
  have out: "convertToFloat32Array (Some buf) = Inr ?out"
    using assms by (rule convert_resampled)
  have r: "0 < ?r" using assms(1) by (rule resampleRatio_bounds)
  have small: "real (length ?xs) * ?r < 2 ^ 51" using assms(1,3) by (rule resample_product_small)
  have "0 \<le> ?F" using r by (intro fl64_nonneg) simp
  then have len: "int (length ?out) = \<lfloor>?F\<rfloor>" by simp
  have err: "\<bar>?F - ?E\<bar> < 1" using assms(1,3) by (rule resample_product_error)
  have lo: "\<lfloor>?E\<rfloor> - 1 \<le> \<lfloor>?F\<rfloor>"
  proof -
    have "of_int (\<lfloor>?E\<rfloor> - 1) \<le> ?E - 1" by simp
    also have "\<dots> \<le> ?F" using err by linarith
    finally show ?thesis by (simp only: le_floor_iff)
  qed
  have hi: "\<lfloor>?F\<rfloor> \<le> \<lfloor>?E\<rfloor> + 1"
  proof -
    have "?F \<le> ?E + 1" using err by linarith
    then have "\<lfloor>?F\<rfloor> \<le> \<lfloor>?E + 1\<rfloor>" by (rule floor_mono)
    then show ?thesis by simp
  qed
  have idx: "\<forall>i<length ?out. nat \<lfloor>fl64 (real i / ?r)\<rfloor> < length ?xs
               \<and> ?out ! i = normalizedData ?xs ! nat \<lfloor>fl64 (real i / ?r)\<rfloor>"
  proof (intro allI impI)
    fix i assume "i < length ?out"
    then have i: "i < nat \<lfloor>?F\<rfloor>" by simp
    then have "int i < \<lfloor>?F\<rfloor>" by linarith
    from resample_index_in_range [OF r small this]
    have "nat \<lfloor>fl64 (real i / ?r)\<rfloor> < length ?xs" by linarith
    moreover have "?out ! i = normalizedData ?xs ! nat \<lfloor>fl64 (real i / ?r)\<rfloor>"
      using i by simp
    ultimately show "nat \<lfloor>fl64 (real i / ?r)\<rfloor> < length ?xs
               \<and> ?out ! i = normalizedData ?xs ! nat \<lfloor>fl64 (real i / ?r)\<rfloor>" ..
  qed
  from out len lo hi idx show ?thesis by (intro exI [of _ ?out]) (simp only: simp_thms)
qed

theorem resampled_length_is_floor_witness:
  "(1::real) \<le> 32000 \<and> (32000::real) \<noteq> 16000 \<and> length [1, 1/2, 1/4 :: real] < 2 ^ 32
   \<and> convertToFloat32Array (Some \<lparr>sampleRate = 32000, channelData = [1, 1/2, 1/4]\<rparr>)
       = Inr [Val 1]
   \<and> \<lfloor>fl64 (real (length [1, 1/2, 1/4 :: real]) * fl64 (16000 / 32000))\<rfloor> = 1"
  using resampled_length_is_floor [of "\<lparr>sampleRate = 32000, channelData = [1, 1/2, 1/4]\<rparr>"]
  by (simp add: convertToFloat32Array_def normalizedData_def maxAbsValue_def orOne_def
        jsDivide_def readAt_def Let_def upt_rec fl64_half fl64_three_halves)

text \<open>
  Claim C9. For every all-zero decoded input (with a sample rate of at least 1 Hz and,
  when it is resampled, fewer than \<open>2\<^sup>3\<^sup>2\<close> samples), the maximum 0 is replaced by the
  divisor 1, so no division by zero takes place, and the call returns a buffer in which
  every sample is the finite value 0 (none is NaN), resampled or not.
\<close>

theorem silence_stays_silent:
  assumes "list_all (\<lambda>x. x = 0) (channelData buf)" "1 \<le> sampleRate buf"
    and "sampleRate buf = 16000 \<or> length (channelData buf) < 2 ^ 32"
  shows "orOne (maxAbsValue (channelData buf)) = 1
       \<and> convertToFloat32Array (Some buf) =
           Inr (replicate
                  (if sampleRate buf = 16000 then length (channelData buf)
                   else nat \<lfloor>fl64 (real (length (channelData buf))
                                     * fl64 (16000 / sampleRate buf))\<rfloor>)
                  (Val 0))"
proof
  show "orOne (maxAbsValue (channelData buf)) = 1"
    using assms(1) by (simp add: maxAbsValue_silence orOne_def)
next
  let ?xs = "channelData buf"
  let ?r = "fl64 (16000 / sampleRate buf)"
  let ?K = "nat \<lfloor>fl64 (real (length ?xs) * ?r)\<rfloor>"
  show "convertToFloat32Array (Some buf) =
          Inr (replicate (if sampleRate buf = 16000 then length ?xs else ?K) (Val 0))"
  proof (cases "sampleRate buf = 16000")
    case True
    then show ?thesis
      using assms(1) by (simp add: convert_same_rate normalizedData_silence)
  next
    case False
    with assms(3) have n: "length ?xs < 2 ^ 32" by simp
    have r: "0 < ?r" using assms(2) by (rule resampleRatio_bounds)
    have small: "real (length ?xs) * ?r < 2 ^ 51" using assms(2) n by (rule resample_product_small)
    have "map (\<lambda>i. normalizedData ?xs ! nat \<lfloor>fl64 (real i / ?r)\<rfloor>) [0..<?K]
        = map (\<lambda>i. Val 0) [0..<?K]"
    proof (rule map_cong [OF refl])
      fix i assume "i \<in> set [0..<?K]"
      then have "int i < \<lfloor>fl64 (real (length ?xs) * ?r)\<rfloor>" by auto
      from resample_index_in_range [OF r small this]
      have "nat \<lfloor>fl64 (real i / ?r)\<rfloor> < length ?xs" by linarith
      then show "normalizedData ?xs ! nat \<lfloor>fl64 (real i / ?r)\<rfloor> = Val 0"
        using assms(1) by (simp add: normalizedData_silence)
    qed
    then show ?thesis
      using False convert_resampled [OF assms(2) False n] by (simp add: map_replicate_const)
  qed
qed

theorem silence_stays_silent_witness:
  "list_all (\<lambda>x. x = 0) (replicate 49 (0::real)) \<and> (1::real) \<le> 49000
   \<and> length (replicate 49 (0::real)) < 2 ^ 32
   \<and> convertToFloat32Array (Some \<lparr>sampleRate = 49000, channelData = replicate 49 0\<rparr>)
       = Inr (replicate 15 (Val 0))"
proof -
  have L: "nat \<lfloor>fl64 (real (length (replicate 49 (0::real))) * fl64 (16000 / 49000))\<rfloor> = 15"
    using resampledLength_49000 by simp
  from silence_stays_silent [of "\<lparr>sampleRate = 49000, channelData = replicate 49 0\<rparr>"] L
  show ?thesis by (simp add: list_all_iff)
qed

section \<open>Properties of the remote backend's result assembly\<close>

text \<open>
  Claim C4, as stated: the chunk list built by \<^verbatim>\<open>transcribeWithSarvam\<close> has every
  segment's start clipped to the previous segment's end. The function maps each raw
  segment on its own and never looks at its predecessor: a second segment that starts
  at 3 while the first ends at 5 keeps its start 3, and the result overlaps.
\<close>

theorem overlapping_segments_counterexample:
  "transcribeWithSarvam (Some ''key'')
     (FetchOk \<lparr>sd_text = Some ''a b'', sd_transcript = None, sd_transcription = None,
               sd_segments = Some
                 [\<lparr>seg_text = Some ''a'', seg_transcript = None, seg_start = Some 1,
                   seg_end = Some 5, seg_timestamp = None\<rparr>,
                  \<lparr>seg_text = Some ''b'', seg_transcript = None, seg_start = Some 3,
                   seg_end = Some 6, seg_timestamp = None\<rparr>],
               sd_chunks = None\<rparr>)
     = Inr \<lparr>res_text = ''a b'',
            res_chunks = [\<lparr>chunk_text = ''a'', chunk_start = 1, chunk_end = 5\<rparr>,
                          \<lparr>chunk_text = ''b'', chunk_start = 3, chunk_end = 6\<rparr>]\<rparr>
   \<and> \<not> nonOverlapping [\<lparr>chunk_text = ''a'', chunk_start = 1, chunk_end = 5\<rparr>,
                         \<lparr>chunk_text = ''b'', chunk_start = 3, chunk_end = 6\<rparr>]"
  by (simp add: transcribeWithSarvam_def segmentsOf_def processSegment_def trim_def
        isSpace_def Let_def)

text \<open>A segment with a non-zero start (end) keeps it.\<close>

lemma processSegment_start:
  "seg_start g = Some s \<Longrightarrow> s \<noteq> 0 \<Longrightarrow> chunk_start (processSegment g) = s"
  by (simp add: processSegment_def Let_def)

lemma processSegment_end:
  "seg_end g = Some e \<Longrightarrow> e \<noteq> 0 \<Longrightarrow> chunk_end (processSegment g) = e"
  by (simp add: processSegment_def Let_def)

text \<open>
  Claim C4, amended: \<^verbatim>\<open>transcribeWithSarvam\<close> neither clips nor reorders. The
  chunk list has one chunk for each raw segment, in the backend's order, and every
  segment that carries a non-zero \<^verbatim>\<open>start\<close> (a non-zero \<^verbatim>\<open>end\<close>) keeps exactly
  that start (that end), whatever the previous segment's end is.
\<close>

theorem sarvam_chunks_keep_backend_times:
  assumes "transcribeWithSarvam key (FetchOk d) = Inr r"
  shows "length (res_chunks r) = length (segmentsOf d)
       \<and> (\<forall>i<length (segmentsOf d).
            (\<forall>s. seg_start (segmentsOf d ! i) = Some s \<and> s \<noteq> 0
                   \<longrightarrow> chunk_start (res_chunks r ! i) = s)
          \<and> (\<forall>e. seg_end (segmentsOf d ! i) = Some e \<and> e \<noteq> 0
                   \<longrightarrow> chunk_end (res_chunks r ! i) = e))"
proof -
  from assms have "res_chunks r = map processSegment (segmentsOf d)"
    by (auto simp add: transcribeWithSarvam_def Let_def split: if_splits)
  then show ?thesis
    by (simp add: processSegment_start processSegment_end)
qed

theorem sarvam_chunks_keep_backend_times_witness:
  "transcribeWithSarvam (Some ''key'')
     (FetchOk \<lparr>sd_text = Some ''a b'', sd_transcript = None, sd_transcription = None,
               sd_segments = Some
                 [\<lparr>seg_text = Some ''a'', seg_transcript = None, seg_start = Some 1,
                   seg_end = Some 5, seg_timestamp = None\<rparr>,
                  \<lparr>seg_text = Some ''b'', seg_transcript = None, seg_start = Some 3,
                   seg_end = Some 6, seg_timestamp = None\<rparr>],
               sd_chunks = None\<rparr>)
     = Inr \<lparr>res_text = ''a b'',
            res_chunks = [\<lparr>chunk_text = ''a'', chunk_start = 1, chunk_end = 5\<rparr>,
                          \<lparr>chunk_text = ''b'', chunk_start = 3, chunk_end = 6\<rparr>]\<rparr>
   \<and> (1::nat) < length [\<lparr>chunk_text = ''a'', chunk_start = 1, chunk_end = 5\<rparr>,
                          \<lparr>chunk_text = ''b'', chunk_start = 3, chunk_end = 6\<rparr>]
   \<and> chunk_start ([\<lparr>chunk_text = ''a'', chunk_start = 1, chunk_end = 5\<rparr>,
                    \<lparr>chunk_text = ''b'', chunk_start = 3, chunk_end = 6\<rparr>] ! 1) = 3"
  using sarvam_chunks_keep_backend_times
    [of "Some ''key''"
        "\<lparr>sd_text = Some ''a b'', sd_transcript = None, sd_transcription = None,
               sd_segments = Some
                 [\<lparr>seg_text = Some ''a'', seg_transcript = None, seg_start = Some 1,
                   seg_end = Some 5, seg_timestamp = None\<rparr>,
                  \<lparr>seg_text = Some ''b'', seg_transcript = None, seg_start = Some 3,
                   seg_end = Some 6, seg_timestamp = None\<rparr>],
               sd_chunks = None\<rparr>"
        "\<lparr>res_text = ''a b'',
            res_chunks = [\<lparr>chunk_text = ''a'', chunk_start = 1, chunk_end = 5\<rparr>,
                          \<lparr>chunk_text = ''b'', chunk_start = 3, chunk_end = 6\<rparr>]\<rparr>"]
  by (simp add: transcribeWithSarvam_def segmentsOf_def processSegment_def trim_def
        isSpace_def Let_def)

section \<open>Properties of the subprocess backend\<close>













end
